theory Spec2Isabelle
  imports Complex_Main
begin

section \<open>Common vocabulary\<close>

text \<open>
  Everything the two adapters make visible outside themselves is recorded as an event:
  \<^item> \<open>Publish key value name\<close> is the call \<^verbatim>\<open>publish (key, value, name)\<close> with a boolean
    value (the lifecycle facts \<^verbatim>\<open>Running\<close> and \<^verbatim>\<open>Finished\<close>);
  \<^item> \<open>PublishValue key x\<close> is \<^verbatim>\<open>publish (key, x)\<close> with a \<^verbatim>\<open>double\<close>;
  \<^item> \<open>RosInfo\<close>, \<open>RosWarn\<close>, \<open>RosError\<close> are the log macros, with the formatted message;
  \<^item> \<open>CommandStatus id success\<close> is a call of the installed command status callback.

  A \<^verbatim>\<open>double\<close> is modelled as a \<open>real\<close>: the code only stores, publishes and compares
  these values, and NaN and the infinities are left out.
\<close>

datatype event =
    Publish string bool string
  | PublishValue string real
  | RosInfo string
  | RosWarn string
  | RosError string
  | CommandStatus int bool

text \<open>
  What ends a call other than a return: \<open>OutOfRange\<close> is the \<^verbatim>\<open>std::out_of_range\<close>
  thrown by \<^verbatim>\<open>std::map::at\<close> on a missing key. The other three are points where the
  behaviour of the program is undefined: \<open>NullCallback\<close> is a call through the null
  command status callback, \<open>OutOfBounds\<close> is a read of a \<^verbatim>\<open>std::vector\<close> past its end with
  \<^verbatim>\<open>operator[]\<close>, and \<open>NoReturn\<close> is the end of the body of a function that is declared
  to return a value and has no \<^verbatim>\<open>return\<close> statement.
\<close>

datatype error = OutOfRange | NullCallback | OutOfBounds | NoReturn

section \<open>PlexilInterface.cpp: the lander operation registry\<close>

text \<open>\<^verbatim>\<open>#define IDLE_ID (-1)\<close>: the dummy operation id that signifies an idle operation.\<close>

definition IDLE_ID :: int where
  "IDLE_ID = - 1"

text \<open>
  Modelled from the spec: the header \<^verbatim>\<open>PlexilInterface.h\<close>, which declares the class, is
  missing. An operation is a unique name with its state and correlation id, and the
  completion notifier is one installable hook; the members are the two that
  \<^verbatim>\<open>PlexilInterface.cpp\<close> initialises and uses.
  The field \<open>m_commandStatusCallback\<close> tells whether the function pointer is non-null
  (what the callback does is outside the program; its calls are events), and
  \<open>m_runningOperations\<close> is the \<^verbatim>\<open>std::map\<close> from operation name to the id of the
  running command, or \<open>IDLE_ID\<close>. The field \<open>emitted\<close> is the history of events; each is
  kept with the contents of \<open>m_runningOperations\<close> at the moment of the emission, so that
  the order of an emission and a store can be stated.
\<close>

record PlexilInterface =
  m_commandStatusCallback :: bool
  m_runningOperations :: "string \<rightharpoonup> int"
  emitted :: "(event \<times> (string \<rightharpoonup> int)) list"

text \<open>
  A call of a member function either returns (\<open>Inr\<close>, with the returned value) or ends
  otherwise (\<open>Inl\<close>); in the second case the result carries, with the \<open>error\<close>, the
  object as it is at that point, so that what the call has stored and emitted before it
  ended can be read. After an undefined point nothing is known of what happens next.
\<close>

type_synonym 'a outcome = "(error \<times> PlexilInterface) + 'a"

definition emit :: "event \<Rightarrow> PlexilInterface \<Rightarrow> PlexilInterface" where
  "emit e s = s\<lparr>emitted := emitted s @ [(e, m_runningOperations s)]\<rparr>"

text \<open>\<^verbatim>\<open>std::map::at\<close>: throws on a key that is not in the map.\<close>

definition map_at :: "('k \<rightharpoonup> 'v) \<Rightarrow> 'k \<Rightarrow> error + 'v" where
  "map_at m k = (case m k of None \<Rightarrow> Inl OutOfRange | Some v \<Rightarrow> Inr v)"

text \<open>The operator \<^verbatim>\<open>!\<close> of C++ on an \<^verbatim>\<open>int\<close>, promoted back to \<^verbatim>\<open>int\<close> by a comparison.\<close>

definition logical_not :: "int \<Rightarrow> int" where
  "logical_not v = (if v = 0 then 1 else 0)"

text \<open>The constructor: no callback, no operation.\<close>

definition PlexilInterface_new :: PlexilInterface where
  "PlexilInterface_new =
     \<lparr>m_commandStatusCallback = False, m_runningOperations = Map.empty, emitted = []\<rparr>"

definition isLanderOperation :: "PlexilInterface \<Rightarrow> string \<Rightarrow> bool" where
  "isLanderOperation s name = (m_runningOperations s name \<noteq> None)"

definition markOperationRunning ::
  "PlexilInterface \<Rightarrow> string \<Rightarrow> int \<Rightarrow> (bool \<times> PlexilInterface) outcome" where
  "markOperationRunning s name cid =
     (case map_at (m_runningOperations s) name of
        Inl e \<Rightarrow> Inl (e, s)
      | Inr v \<Rightarrow>
          if v \<noteq> IDLE_ID
          then Inr (False,
                 emit (RosWarn (name @ '' already running, ignoring duplicate request.'')) s)
          else Inr (True,
                 emit (Publish ''Running'' True name)
                   (s\<lparr>m_runningOperations := (m_runningOperations s)(name \<mapsto> cid)\<rparr>)))"

text \<open>
  \<^verbatim>\<open>markOperationFinished\<close> is declared \<^verbatim>\<open>bool\<close> and its body has no \<^verbatim>\<open>return\<close>: a call
  that does not throw runs into the closing brace, where the behaviour is undefined. The
  function never returns a value: every result is an \<open>Inl\<close>. The result \<open>(NoReturn, s)\<close>
  carries the object \<open>s\<close> as the statements of the body leave it, in their order in the
  source. What \<open>s\<close> holds has happened by then; what happens next is not known, and a
  compiler may take the closing brace as unreachable, so that nothing is known either
  of what the program does on the path for \<^verbatim>\<open>id == IDLE_ID\<close> after the last publication,
  where no call stands between the test and the brace.

  The first test of the body is written \<^verbatim>\<open>! m_runningOperations.at (name) == IDLE_ID\<close>,
  where \<^verbatim>\<open>!\<close> binds tighter than \<^verbatim>\<open>==\<close>.
\<close>

definition markOperationFinished ::
  "PlexilInterface \<Rightarrow> string \<Rightarrow> int \<Rightarrow> (bool \<times> PlexilInterface) outcome" where
  "markOperationFinished s name cid =
     (case map_at (m_runningOperations s) name of
        Inl e \<Rightarrow> Inl (e, s)
      | Inr v \<Rightarrow>
          let s1 = (if logical_not v = IDLE_ID
                    then emit (RosWarn (name @ '' was not running. Should never happen.'')) s
                    else s);
              s2 = s1\<lparr>m_runningOperations := (m_runningOperations s1)(name \<mapsto> IDLE_ID)\<rparr>;
              s3 = emit (Publish ''Running'' False name) s2;
              s4 = emit (Publish ''Finished'' True name) s3
          in if cid \<noteq> IDLE_ID
             then (if m_commandStatusCallback s4
                   then Inl (NoReturn, emit (CommandStatus cid True) s4)
                   else Inl (NullCallback, s4))
             else Inl (NoReturn, s4))"

definition operationRunning :: "PlexilInterface \<Rightarrow> string \<Rightarrow> bool outcome" where
  "operationRunning s name =
     (case map_at (m_runningOperations s) name of
        Inl e \<Rightarrow> Inl (e, s)
      | Inr v \<Rightarrow> Inr (v \<noteq> IDLE_ID))"

definition running :: "PlexilInterface \<Rightarrow> string \<Rightarrow> bool outcome" where
  "running s name = operationRunning s name"

definition setCommandStatusCallback :: "PlexilInterface \<Rightarrow> bool \<Rightarrow> PlexilInterface" where
  "setCommandStatusCallback s callback = s\<lparr>m_commandStatusCallback := callback\<rparr>"

text \<open>\<^verbatim>\<open>m_runningOperations[name] = IDLE_ID\<close>: inserts the key or overwrites its value.\<close>

definition registerLanderOperation :: "PlexilInterface \<Rightarrow> string \<Rightarrow> PlexilInterface" where
  "registerLanderOperation s name =
     s\<lparr>m_runningOperations := (m_runningOperations s)(name \<mapsto> IDLE_ID)\<rparr>"

text \<open>Readers of the history: the events alone, the boolean facts published for one
  operation name, and the calls of the command status callback.\<close>

definition events :: "PlexilInterface \<Rightarrow> event list" where
  "events s = map fst (emitted s)"

fun facts_for :: "string \<Rightarrow> event list \<Rightarrow> (string \<times> bool) list" where
  "facts_for name [] = []"
| "facts_for name (Publish key v n # es) =
     (if n = name then (key, v) # facts_for name es else facts_for name es)"
| "facts_for name (e # es) = facts_for name es"

fun notifications :: "event list \<Rightarrow> (int \<times> bool) list" where
  "notifications [] = []"
| "notifications (CommandStatus i b # es) = (i, b) # notifications es"
| "notifications (e # es) = notifications es"

fun warnings :: "event list \<Rightarrow> string list" where
  "warnings [] = []"
| "warnings (RosWarn m # es) = m # warnings es"
| "warnings (e # es) = warnings es"

section \<open>OwInterface.cpp: services, joints and torque limits\<close>

subsection \<open>Service support\<close>

text \<open>The three instances of the template \<^verbatim>\<open>ServiceInfo<Service>\<close>, each with its own static
  flag \<^verbatim>\<open>m_running\<close>.\<close>

datatype service = MoveGuarded | StartPlanning | PublishTrajectory

subsection \<open>Joint and torque support\<close>

text \<open>Modelled from the spec: the header \<^verbatim>\<open>joint_support.h\<close>, which declares \<^verbatim>\<open>Joint\<close>,
  \<^verbatim>\<open>JointProperties\<close> and \<^verbatim>\<open>JointTelemetry\<close>, is missing. A channel has a static identity
  and two thresholds, and a sample is a position, a velocity and an effort; the joints are
  the keys of the table \<^verbatim>\<open>JointPropMap\<close> of \<^verbatim>\<open>OwInterface.cpp\<close>, and the field names are
  the ones that file initialises and reads.\<close>

datatype Joint =
    shoulder_yaw | shoulder_pitch | proximal_pitch | distal_pitch
  | hand_yaw | scoop_yaw | antenna_pan | antenna_tilt

record JointProperties =
  rosName :: string
  plexilName :: string
  softTorqueLimit :: real
  hardTorqueLimit :: real

datatype JointTelemetry = JointTelemetry real real real

definition JointMap_table :: "(string \<times> Joint) list" where
  "JointMap_table =
     [(''j_shou_yaw'', shoulder_yaw),
      (''j_shou_pitch'', shoulder_pitch),
      (''j_prox_pitch'', proximal_pitch),
      (''j_dist_pitch'', distal_pitch),
      (''j_hand_yaw'', hand_yaw),
      (''j_scoop_yaw'', scoop_yaw),
      (''j_ant_pan'', antenna_pan),
      (''j_ant_tilt'', antenna_tilt)]"

definition JointMap :: "string \<rightharpoonup> Joint" where
  "JointMap = map_of JointMap_table"

fun JointPropMap :: "Joint \<Rightarrow> JointProperties" where
  "JointPropMap shoulder_yaw =
     \<lparr>rosName = ''j_shou_yaw'', plexilName = ''ShoulderYaw'',
      softTorqueLimit = 60, hardTorqueLimit = 80\<rparr>"
| "JointPropMap shoulder_pitch =
     \<lparr>rosName = ''j_shou_pitch'', plexilName = ''ShoulderPitch'',
      softTorqueLimit = 60, hardTorqueLimit = 80\<rparr>"
| "JointPropMap proximal_pitch =
     \<lparr>rosName = ''j_prox_pitch'', plexilName = ''ProximalPitch'',
      softTorqueLimit = 60, hardTorqueLimit = 80\<rparr>"
| "JointPropMap distal_pitch =
     \<lparr>rosName = ''j_dist_pitch'', plexilName = ''DistalPitch'',
      softTorqueLimit = 60, hardTorqueLimit = 80\<rparr>"
| "JointPropMap hand_yaw =
     \<lparr>rosName = ''j_hand_yaw'', plexilName = ''HandYaw'',
      softTorqueLimit = 60, hardTorqueLimit = 80\<rparr>"
| "JointPropMap scoop_yaw =
     \<lparr>rosName = ''j_scoop_yaw'', plexilName = ''ScoopYaw'',
      softTorqueLimit = 60, hardTorqueLimit = 80\<rparr>"
| "JointPropMap antenna_pan =
     \<lparr>rosName = ''j_ant_pan'', plexilName = ''AntennaPan'',
      softTorqueLimit = 30, hardTorqueLimit = 30\<rparr>"
| "JointPropMap antenna_tilt =
     \<lparr>rosName = ''j_ant_tilt'', plexilName = ''AntennaTilt'',
      softTorqueLimit = 30, hardTorqueLimit = 30\<rparr>"

text \<open>The file's static variables, and the history of what it published and logged.\<close>

record OwInterface =
  ServiceInfo_running :: "service \<Rightarrow> bool"
  JointsAtHardTorqueLimit :: "string set"
  JointsAtSoftTorqueLimit :: "string set"
  JointTelemetryMap :: "Joint \<rightharpoonup> JointTelemetry"
  published :: "event list"

definition OwInterface_new :: OwInterface where
  "OwInterface_new =
     \<lparr>ServiceInfo_running = (\<lambda>srv. False),
      JointsAtHardTorqueLimit = {},
      JointsAtSoftTorqueLimit = {},
      JointTelemetryMap = Map.empty,
      published = []\<rparr>"

definition publish :: "event \<Rightarrow> OwInterface \<Rightarrow> OwInterface" where
  "publish e s = s\<lparr>published := published s @ [e]\<rparr>"

definition is_running :: "OwInterface \<Rightarrow> service \<Rightarrow> bool" where
  "is_running s srv = ServiceInfo_running s srv"

definition start :: "OwInterface \<Rightarrow> service \<Rightarrow> OwInterface" where
  "start s srv = s\<lparr>ServiceInfo_running := (ServiceInfo_running s)(srv := True)\<rparr>"

definition stop :: "OwInterface \<Rightarrow> service \<Rightarrow> OwInterface" where
  "stop s srv = s\<lparr>ServiceInfo_running := (ServiceInfo_running s)(srv := False)\<rparr>"

text \<open>
  \<^verbatim>\<open>service_call<Service> (client, srv, name)\<close>. The blocking \<^verbatim>\<open>client.call (srv)\<close> is the
  parameter \<open>response\<close>: \<open>None\<close> when the call returns false, otherwise the
  \<^verbatim>\<open>success\<close> flag and the message of the response.
\<close>

definition service_call ::
  "OwInterface \<Rightarrow> service \<Rightarrow> string \<Rightarrow> (bool \<times> string) option \<Rightarrow> OwInterface" where
  "service_call s srv name response =
     (let s1 = (if is_running s srv
                then publish (RosError (''service_call: '' @ name @
                                '' in running state. This shouldn't happen.'')) s
                else start s srv);
          s2 = publish (Publish ''Running'' True name) s1;
          s3 = (case response of
                  Some (success, message) \<Rightarrow>
                    publish (RosInfo (name @ '' returned: '' @
                               (if success then ''1'' else ''0'') @ '', '' @ message)) s2
                | None \<Rightarrow> publish (RosError (''Failed to call service '' @ name)) s2);
          s4 = (if \<not> is_running s3 srv
                then publish (RosError (''service_call: '' @ name @
                                '' in stopped state. This shouldn't happen.'')) s3
                else stop s3 srv)
      in publish (Publish ''Finished'' True name) s4)"

text \<open>
  \<^verbatim>\<open>handle_overtorque (joint, effort)\<close>. The thresholds of \<^verbatim>\<open>JointPropMap\<close> are whole
  numbers, so for an effort in the range of \<^verbatim>\<open>int\<close> the comparisons come out the same
  whether \<^verbatim>\<open>abs\<close> resolves to the floating-point overload or to the integer one after
  truncation.
\<close>

definition handle_overtorque :: "OwInterface \<Rightarrow> Joint \<Rightarrow> real \<Rightarrow> OwInterface" where
  "handle_overtorque s joint effort =
     (if \<bar>effort\<bar> \<ge> hardTorqueLimit (JointPropMap joint)
      then s\<lparr>JointsAtHardTorqueLimit :=
               insert (plexilName (JointPropMap joint)) (JointsAtHardTorqueLimit s)\<rparr>
      else if \<bar>effort\<bar> \<ge> softTorqueLimit (JointPropMap joint)
      then s\<lparr>JointsAtSoftTorqueLimit :=
               insert (plexilName (JointPropMap joint)) (JointsAtSoftTorqueLimit s)\<rparr>
      else s\<lparr>JointsAtHardTorqueLimit :=
               JointsAtHardTorqueLimit s - {plexilName (JointPropMap joint)},
             JointsAtSoftTorqueLimit :=
               JointsAtSoftTorqueLimit s - {plexilName (JointPropMap joint)}\<rparr>)"

text \<open>The message \<^verbatim>\<open>sensor_msgs::JointState\<close>: four parallel vectors.\<close>

record JointState =
  msg_name :: "string list"
  msg_position :: "real list"
  msg_velocity :: "real list"
  msg_effort :: "real list"

text \<open>\<^verbatim>\<open>v[i]\<close> on a \<^verbatim>\<open>std::vector\<close>: reading past the end is undefined, here an error.\<close>

definition vec_at :: "'a list \<Rightarrow> nat \<Rightarrow> error + 'a" where
  "vec_at xs i = (if i < length xs then Inr (xs ! i) else Inl OutOfBounds)"

definition handle_joint_fault ::
  "OwInterface \<Rightarrow> Joint \<Rightarrow> nat \<Rightarrow> JointState \<Rightarrow> error + OwInterface" where
  "handle_joint_fault s joint joint_index msg =
     (case vec_at (msg_effort msg) joint_index of
        Inl e \<Rightarrow> Inl e
      | Inr effort \<Rightarrow> Inr (handle_overtorque s joint effort))"

text \<open>The body of the loop of \<^verbatim>\<open>jointStatesCallback\<close>, for the index \<open>i\<close>.\<close>

definition joint_states_entry :: "OwInterface \<Rightarrow> JointState \<Rightarrow> nat \<Rightarrow> error + OwInterface" where
  "joint_states_entry s msg i =
     (case vec_at (msg_name msg) i of
        Inl e \<Rightarrow> Inl e
      | Inr ros_name \<Rightarrow>
         (case JointMap ros_name of
            None \<Rightarrow>
              Inr (publish (RosError (''jointStatesCallback: unsupported joint '' @ ros_name)) s)
          | Some joint \<Rightarrow>
             (case vec_at (msg_position msg) i of
                Inl e \<Rightarrow> Inl e
              | Inr p \<Rightarrow>
                 (case vec_at (msg_velocity msg) i of
                    Inl e \<Rightarrow> Inl e
                  | Inr v \<Rightarrow>
                     (case vec_at (msg_effort msg) i of
                        Inl e \<Rightarrow> Inl e
                      | Inr f \<Rightarrow>
                          let s1 = s\<lparr>JointTelemetryMap :=
                                      (JointTelemetryMap s)(joint \<mapsto> JointTelemetry p v f)\<rparr>;
                              plexil_name = plexilName (JointPropMap joint);
                              s2 = publish (PublishValue (plexil_name @ ''Velocity'') v) s1;
                              s3 = publish (PublishValue (plexil_name @ ''Effort'') f) s2;
                              s4 = publish (PublishValue (plexil_name @ ''Position'') p) s3
                          in handle_joint_fault s4 joint i msg)))))"

text \<open>The loop \<^verbatim>\<open>for (int i = 0; i < JointMap.size(); i++)\<close>, over the indices left to visit.\<close>

fun joint_states_loop :: "JointState \<Rightarrow> nat list \<Rightarrow> OwInterface \<Rightarrow> error + OwInterface" where
  "joint_states_loop msg [] s = Inr s"
| "joint_states_loop msg (i # rest) s =
     (case joint_states_entry s msg i of
        Inl e \<Rightarrow> Inl e
      | Inr s' \<Rightarrow> joint_states_loop msg rest s')"

definition jointStatesCallback :: "OwInterface \<Rightarrow> JointState \<Rightarrow> error + OwInterface" where
  "jointStatesCallback s msg = joint_states_loop msg [0 ..< length JointMap_table] s"

definition hardTorqueLimitReached :: "OwInterface \<Rightarrow> string \<Rightarrow> bool" where
  "hardTorqueLimitReached s joint_name = (joint_name \<in> JointsAtHardTorqueLimit s)"

definition softTorqueLimitReached :: "OwInterface \<Rightarrow> string \<Rightarrow> bool" where
  "softTorqueLimitReached s joint_name = (joint_name \<in> JointsAtSoftTorqueLimit s)"


section \<open>Concrete objects used in the examples\<close>

text \<open>An interface with the callback installed and the one operation \<^verbatim>\<open>Dig\<close> registered;
  the same after \<^verbatim>\<open>markOperationRunning ("Dig", 42)\<close>; and as the matching
  \<^verbatim>\<open>markOperationFinished ("Dig", 42)\<close> leaves it at the end of its body.\<close>

definition Dig_idle :: PlexilInterface where
  "Dig_idle = setCommandStatusCallback (registerLanderOperation PlexilInterface_new ''Dig'') True"

definition Dig_running :: PlexilInterface where
  "Dig_running = snd (projr (markOperationRunning Dig_idle ''Dig'' 42))"

definition Dig_finished :: PlexilInterface where
  "Dig_finished = snd (projl (markOperationFinished Dig_running ''Dig'' 42))"

text \<open>Finishing \<^verbatim>\<open>Dig\<close> while it is idle, on the fresh interface: the object at the end of
  the body of \<^verbatim>\<open>markOperationFinished ("Dig", 42)\<close>.\<close>

definition Dig_idle_finished :: PlexilInterface where
  "Dig_idle_finished = snd (projl (markOperationFinished Dig_idle ''Dig'' 42))"

text \<open>A message whose first entry is the shoulder yaw joint and whose second entry names no
  joint of \<^verbatim>\<open>JointMap\<close>; the file's state after the first entry is processed, and the same
  with other positions and velocities in the message.\<close>

definition one_joint_msg :: JointState where
  "one_joint_msg =
     \<lparr>msg_name = [''j_shou_yaw'', ''j_elbow''], msg_position = [1 / 10, 0],
      msg_velocity = [1 / 5, 0], msg_effort = [65, 90]\<rparr>"

definition shoulder_sampled :: OwInterface where
  "shoulder_sampled = projr (joint_states_entry OwInterface_new one_joint_msg 0)"

definition shoulder_resampled :: OwInterface where
  "shoulder_resampled =
     projr (joint_states_entry OwInterface_new
              (one_joint_msg\<lparr>msg_position := [7, 0], msg_velocity := [8, 0]\<rparr>) 0)"

section \<open>The fault tiers as the specification words them\<close>

text \<open>
  The code has no value for a tier: it branches. This function follows the
  specification's sentence, "Hard if the magnitude of the effort is at least the hard
  limit, else Soft if it is at least the soft limit, else Nominal", and
  \<open>handle_overtorque\<close> is compared with it below.
\<close>

datatype tier = Nominal | Soft | Hard

definition spec_tier :: "real \<Rightarrow> real \<Rightarrow> real \<Rightarrow> tier" where
  "spec_tier softLimit hardLimit effort =
     (if \<bar>effort\<bar> \<ge> hardLimit then Hard
      else if \<bar>effort\<bar> \<ge> softLimit then Soft
      else Nominal)"

definition joint_tier :: "Joint \<Rightarrow> real \<Rightarrow> tier" where
  "joint_tier joint effort =
     spec_tier (softTorqueLimit (JointPropMap joint)) (hardTorqueLimit (JointPropMap joint)) effort"

text \<open>The two queries of a joint name, side by side: (hard limit reached, soft limit
  reached).\<close>

definition torque_status :: "OwInterface \<Rightarrow> string \<Rightarrow> bool \<times> bool" where
  "torque_status s joint_name =
     (hardTorqueLimitReached s joint_name, softTorqueLimitReached s joint_name)"


text \<open>The state of \<^verbatim>\<open>OwInterface.cpp\<close> with the log left out of what it published: the
  stores and the published facts remain.\<close>

fun is_log :: "event \<Rightarrow> bool" where
  "is_log (RosInfo m) = True"
| "is_log (RosWarn m) = True"
| "is_log (RosError m) = True"
| "is_log e = False"

definition without_logs :: "OwInterface \<Rightarrow> OwInterface" where
  "without_logs s = s\<lparr>published := filter (\<lambda>e. \<not> is_log e) (published s)\<rparr>"


definition outcome_without_logs :: "error + OwInterface \<Rightarrow> error + OwInterface" where
  "outcome_without_logs r = (case r of Inl e \<Rightarrow> Inl e | Inr s \<Rightarrow> Inr (without_logs s))"

section \<open>The operation registry: properties\<close>

subsection \<open>Auxiliary facts\<close>

lemma logical_not_never_idle: "logical_not v \<noteq> IDLE_ID"
  by (simp add: logical_not_def IDLE_ID_def)

lemma facts_for_append: "facts_for name (xs @ ys) = facts_for name xs @ facts_for name ys"
  by (induction name xs rule: facts_for.induct) simp_all

lemma notifications_append: "notifications (xs @ ys) = notifications xs @ notifications ys"
  by (induction xs rule: notifications.induct) simp_all

lemma warnings_append: "warnings (xs @ ys) = warnings xs @ warnings ys"
  by (induction xs rule: warnings.induct) simp_all

text \<open>What \<^verbatim>\<open>markOperationFinished\<close> does on a registered name, whatever the entry holds:
  the warning branch is dead, since \<open>logical_not v\<close> is 0 or 1 and never \<open>IDLE_ID\<close>, and no
  path returns a value.\<close>

lemma markOperationFinished_registered:
  assumes "m_runningOperations s name = Some v"
  shows "markOperationFinished s name cid =
     (if cid \<noteq> IDLE_ID \<and> \<not> m_commandStatusCallback s
      then Inl (NullCallback,
             s\<lparr>m_runningOperations := (m_runningOperations s)(name \<mapsto> IDLE_ID),
               emitted := emitted s @
                 [(Publish ''Running'' False name, (m_runningOperations s)(name \<mapsto> IDLE_ID)),
                  (Publish ''Finished'' True name, (m_runningOperations s)(name \<mapsto> IDLE_ID))]\<rparr>)
      else Inl (NoReturn,
             s\<lparr>m_runningOperations := (m_runningOperations s)(name \<mapsto> IDLE_ID),
               emitted := emitted s @
                 [(Publish ''Running'' False name, (m_runningOperations s)(name \<mapsto> IDLE_ID)),
                  (Publish ''Finished'' True name, (m_runningOperations s)(name \<mapsto> IDLE_ID))] @
                 (if cid \<noteq> IDLE_ID
                  then [(CommandStatus cid True, (m_runningOperations s)(name \<mapsto> IDLE_ID))]
                  else [])\<rparr>))"
  using assms
  by (simp add: markOperationFinished_def map_at_def emit_def logical_not_never_idle Let_def)

text \<open>A call that runs to the end of the body was made on a registered name.\<close>

lemma markOperationFinished_ends:
  assumes "markOperationFinished s name cid = Inl (NoReturn, s')"
  shows "\<exists>v. m_runningOperations s name = Some v"
  using assms
  by (auto simp: markOperationFinished_def map_at_def split: option.splits)

lemma markOperationRunning_accepted:
  assumes "markOperationRunning s name cid = Inr (True, s1)"
  shows "m_runningOperations s name = Some IDLE_ID \<and>
         s1 = s\<lparr>m_runningOperations := (m_runningOperations s)(name \<mapsto> cid),
                emitted := emitted s @
                  [(Publish ''Running'' True name, (m_runningOperations s)(name \<mapsto> cid))]\<rparr>"
  using assms
  by (auto simp: markOperationRunning_def map_at_def emit_def split: option.splits if_splits)

text \<open>No call of \<^verbatim>\<open>markOperationFinished\<close> has logged a warning when it reaches the end of
  its body.\<close>

lemma markOperationFinished_never_warns:
  assumes "markOperationFinished s name cid = Inl (NoReturn, s')"
  shows "warnings (events s') = warnings (events s)"
proof -
  from markOperationFinished_ends [OF assms]
  obtain v where v: "m_runningOperations s name = Some v"
    by blast
  from assms show ?thesis
    unfolding markOperationFinished_registered [OF v]
    by (auto simp: events_def warnings_append split: if_splits)
qed

text \<open>A request for an operation that is running is refused, and nothing but the log
  changes.\<close>

lemma markOperationRunning_when_running:
  assumes "m_runningOperations s name = Some v" and "v \<noteq> IDLE_ID"
  shows "\<exists>s'. markOperationRunning s name cid = Inr (False, s') \<and>
           m_runningOperations s' = m_runningOperations s \<and>
           m_commandStatusCallback s' = m_commandStatusCallback s \<and>
           facts_for n (events s') = facts_for n (events s) \<and>
           notifications (events s') = notifications (events s)"
  using assms
  by (simp add: markOperationRunning_def map_at_def emit_def events_def facts_for_append
      notifications_append)

text \<open>A request with a proper id for an idle operation is accepted, and the operation is
  running afterwards.\<close>

lemma markOperationRunning_when_idle:
  assumes "m_runningOperations s name = Some IDLE_ID" and "cid \<noteq> IDLE_ID"
  shows "\<exists>s'. markOperationRunning s name cid = Inr (True, s') \<and>
           m_runningOperations s' name = Some cid \<and>
           operationRunning s' name = Inr True"
  using assms
  by (simp add: markOperationRunning_def map_at_def emit_def operationRunning_def)

lemma Dig_idle_simps:
  "m_runningOperations Dig_idle = [''Dig'' \<mapsto> IDLE_ID]"
  "m_commandStatusCallback Dig_idle = True"
  "emitted Dig_idle = []"
  by (simp_all add: Dig_idle_def setCommandStatusCallback_def registerLanderOperation_def
      PlexilInterface_new_def)

lemma Dig_running_simps:
  "markOperationRunning Dig_idle ''Dig'' 42 = Inr (True, Dig_running)"
  "m_runningOperations Dig_running = [''Dig'' \<mapsto> 42]"
  "m_commandStatusCallback Dig_running = True"
  "emitted Dig_running = [(Publish ''Running'' True ''Dig'', [''Dig'' \<mapsto> 42])]"
  by (simp_all add: Dig_running_def markOperationRunning_def map_at_def emit_def Dig_idle_simps
      IDLE_ID_def)

lemma Dig_finished_simps:
  "markOperationFinished Dig_running ''Dig'' 42 = Inl (NoReturn, Dig_finished)"
  "m_runningOperations Dig_finished = [''Dig'' \<mapsto> IDLE_ID]"
  "m_commandStatusCallback Dig_finished = True"
  "emitted Dig_finished =
     [(Publish ''Running'' True ''Dig'', [''Dig'' \<mapsto> 42]),
      (Publish ''Running'' False ''Dig'', [''Dig'' \<mapsto> IDLE_ID]),
      (Publish ''Finished'' True ''Dig'', [''Dig'' \<mapsto> IDLE_ID]),
      (CommandStatus 42 True, [''Dig'' \<mapsto> IDLE_ID])]"
  by (simp_all add: Dig_finished_def markOperationFinished_registered [of _ _ 42]
      Dig_running_simps IDLE_ID_def)

lemma Dig_idle_finished_simps:
  "markOperationFinished Dig_idle ''Dig'' 42 = Inl (NoReturn, Dig_idle_finished)"
  "m_runningOperations Dig_idle_finished = [''Dig'' \<mapsto> IDLE_ID]"
  "emitted Dig_idle_finished =
     [(Publish ''Running'' False ''Dig'', [''Dig'' \<mapsto> IDLE_ID]),
      (Publish ''Finished'' True ''Dig'', [''Dig'' \<mapsto> IDLE_ID]),
      (CommandStatus 42 True, [''Dig'' \<mapsto> IDLE_ID])]"
  by (simp_all add: Dig_idle_finished_def markOperationFinished_registered [of _ _ IDLE_ID]
      Dig_idle_simps IDLE_ID_def)

subsection \<open>Starting an operation\<close>

text \<open>
  Claim C1: for every registered operation name and every correlation id,
  \<^verbatim>\<open>markOperationRunning\<close> refuses an operation that is running and leaves the registry as
  it is, and otherwise makes the operation running with the id recorded and returns
  true, so that \<^verbatim>\<open>operationRunning\<close> holds until the operation is finished.

  The registry keeps one integer for each operation, the id of the running command, and
  reads \<open>IDLE_ID\<close> as idle. A request whose id is \<open>IDLE_ID\<close> itself (the id that
  \<^verbatim>\<open>markOperationFinished\<close> expects and treats as "no command to report to") is
  accepted: the call returns true and publishes \<^verbatim>\<open>Running\<close> = true. But the entry it
  stores is \<open>IDLE_ID\<close>, so the operation is not running afterwards. The theorem runs the
  code at that input. For every other id the claim holds: see
  \<open>markOperationRunning_when_running\<close> and \<open>markOperationRunning_when_idle\<close>.
\<close>

theorem markOperationRunning_idle_id_stays_idle:
  "markOperationRunning Dig_idle ''Dig'' IDLE_ID =
     Inr (True, Dig_idle\<lparr>emitted := [(Publish ''Running'' True ''Dig'', [''Dig'' \<mapsto> IDLE_ID])]\<rparr>)
   \<and> operationRunning
        (Dig_idle\<lparr>emitted := [(Publish ''Running'' True ''Dig'', [''Dig'' \<mapsto> IDLE_ID])]\<rparr>)
        ''Dig'' = Inr False"
  by (simp add: markOperationRunning_def operationRunning_def map_at_def emit_def Dig_idle_simps)

subsection \<open>Finishing an operation\<close>

text \<open>
  Claim C2: when \<^verbatim>\<open>markOperationFinished\<close> is called for an operation that is not
  running, a warning is logged and the operation is still forced to idle.

  The entry of the operation is set to idle, but the warning is never logged: the test
  \<^verbatim>\<open>! m_runningOperations.at (name) == IDLE_ID\<close> compares 0 or 1 with -1. The theorem
  runs the code on the idle operation \<^verbatim>\<open>Dig\<close>, up to the end of the body.
\<close>

theorem markOperationFinished_idle_logs_no_warning:
  "operationRunning Dig_idle ''Dig'' = Inr False \<and>
   markOperationFinished Dig_idle ''Dig'' 42 = Inl (NoReturn, Dig_idle_finished) \<and>
   warnings (events Dig_idle_finished) = [] \<and>
   operationRunning Dig_idle_finished ''Dig'' = Inr False"
  by (simp add: Dig_idle_finished_simps Dig_idle_simps events_def operationRunning_def
      map_at_def IDLE_ID_def)

text \<open>
  Claim C3: a finished operation with an id other than \<open>IDLE_ID\<close> is reported to the
  command status callback with that id and the success flag of the outcome, true or
  false; with the id \<open>IDLE_ID\<close> the callback is not called.

  \<^verbatim>\<open>markOperationFinished (name, id)\<close> is the one place that calls the callback. It
  receives no outcome, and the flag it passes is the constant \<^verbatim>\<open>true\<close>: whatever the
  invocation of \<^verbatim>\<open>Dig\<close> reported, and so also when it reported a failure, the call made
  for the id 42 is \<open>(42, True)\<close>, and \<open>(42, False)\<close> is not among the calls.
\<close>

theorem markOperationFinished_reports_true_counterexample:
  "markOperationFinished Dig_running ''Dig'' 42 = Inl (NoReturn, Dig_finished) \<and>
   notifications (events Dig_finished) = [(42, True)] \<and>
   notifications (events Dig_finished) \<noteq> [(42, False)] \<and>
   (42, False) \<notin> set (notifications (events Dig_finished))"
  by (simp add: Dig_finished_simps events_def)

text \<open>
  Claim C3, amended: for a registered operation, an installed callback and an id other
  than \<open>IDLE_ID\<close>, \<^verbatim>\<open>markOperationFinished\<close> calls the callback with that id and the flag
  true, once, before it reaches the end of its body. Nothing is said of the id
  \<open>IDLE_ID\<close>, nor of what follows the call: the function has no \<^verbatim>\<open>return\<close> statement.
\<close>

theorem markOperationFinished_notifies:
  assumes "m_runningOperations s name = Some v" and "m_commandStatusCallback s"
    and "cid \<noteq> IDLE_ID"
  shows "\<exists>s'. markOperationFinished s name cid = Inl (NoReturn, s') \<and>
           notifications (events s') = notifications (events s) @ [(cid, True)]"
  using assms
  by (simp add: markOperationFinished_registered [of _ _ v] events_def notifications_append)

theorem markOperationFinished_notifies_witness:
  "m_runningOperations Dig_running ''Dig'' = Some 42 \<and> m_commandStatusCallback Dig_running \<and>
   (42::int) \<noteq> IDLE_ID \<and>
   (\<exists>s'. markOperationFinished Dig_running ''Dig'' 42 = Inl (NoReturn, s') \<and>
      notifications (events s') = notifications (events Dig_running) @ [(42, True)])"
  using markOperationFinished_notifies [of Dig_running "''Dig''" 42 42]
  by (simp add: Dig_running_simps(2-4) IDLE_ID_def)

text \<open>
  Claim C9: when \<^verbatim>\<open>markOperationFinished\<close> is called for an operation that is already
  idle, the callback is not called, so that it is called at most once for each accepted
  request.

  The call of the callback depends on the id alone, not on the entry of the operation:
  \<^verbatim>\<open>Dig\<close> is idle and no request for it was ever accepted, and
  \<^verbatim>\<open>markOperationFinished ("Dig", 42)\<close> calls the callback with \<open>(42, True)\<close>.
\<close>

theorem markOperationFinished_idle_counterexample:
  "operationRunning Dig_idle ''Dig'' = Inr False \<and>
   notifications (events Dig_idle) = [] \<and>
   markOperationFinished Dig_idle ''Dig'' 42 = Inl (NoReturn, Dig_idle_finished) \<and>
   notifications (events Dig_idle_finished) = [(42, True)]"
  by (simp add: Dig_idle_finished_simps Dig_idle_simps operationRunning_def map_at_def
      events_def)

text \<open>
  Claim C9, amended: when \<^verbatim>\<open>markOperationFinished\<close> is called with an id other than
  \<open>IDLE_ID\<close> for an operation that is already idle (the callback installed), the callback
  is called all the same, with that id and true, the entry of the operation being idle
  at that moment: the call is guarded by the id alone, not by the state of the
  operation. Nothing is said of what follows the call: the function has no \<^verbatim>\<open>return\<close>
  statement.
\<close>

theorem markOperationFinished_idle_notifies_again:
  assumes "m_runningOperations s name = Some IDLE_ID" and "m_commandStatusCallback s"
    and "cid \<noteq> IDLE_ID"
  shows "\<exists>s'. markOperationFinished s name cid = Inl (NoReturn, s') \<and>
           notifications (events s') = notifications (events s) @ [(cid, True)] \<and>
           (\<exists>registry. last (emitted s') = (CommandStatus cid True, registry) \<and>
              registry name = Some IDLE_ID)"
  using assms
  by (simp add: markOperationFinished_registered [of _ _ IDLE_ID] events_def
      notifications_append)

theorem markOperationFinished_idle_notifies_again_witness:
  "m_runningOperations Dig_idle ''Dig'' = Some IDLE_ID \<and> m_commandStatusCallback Dig_idle \<and>
   (42::int) \<noteq> IDLE_ID \<and>
   (\<exists>s'. markOperationFinished Dig_idle ''Dig'' 42 = Inl (NoReturn, s') \<and>
      notifications (events s') = notifications (events Dig_idle) @ [(42, True)] \<and>
      (\<exists>registry. last (emitted s') = (CommandStatus 42 True, registry) \<and>
         registry ''Dig'' = Some IDLE_ID))"
  using markOperationFinished_idle_notifies_again [of Dig_idle "''Dig''" 42]
  by (simp add: Dig_idle_simps(1,2) IDLE_ID_def)

subsection \<open>Registering an operation\<close>

text \<open>
  Claim C7: registering a name a second time fails with a duplicate name error and does
  not alter the state of the operation; registering a new name succeeds and maps it to
  idle.

  \<^verbatim>\<open>registerLanderOperation\<close> is the assignment \<^verbatim>\<open>m_runningOperations[name] = IDLE_ID\<close>: it
  cannot fail, and on a registered name it overwrites the entry. Registering \<^verbatim>\<open>Dig\<close>
  again while it runs makes it idle.
\<close>

theorem registerLanderOperation_twice_counterexample:
  "operationRunning Dig_running ''Dig'' = Inr True \<and>
   operationRunning (registerLanderOperation Dig_running ''Dig'') ''Dig'' = Inr False"
  by (simp add: operationRunning_def map_at_def registerLanderOperation_def Dig_running_simps
      IDLE_ID_def)

text \<open>
  Claim C7, amended: \<^verbatim>\<open>registerLanderOperation\<close> always succeeds; afterwards the name is
  a lander operation and idle, whether or not it was registered (or running) before;
  the entries of all other names, the history and the callback are unchanged.
\<close>

theorem registerLanderOperation_overwrites:
  "isLanderOperation (registerLanderOperation s name) name \<and>
   operationRunning (registerLanderOperation s name) name = Inr False \<and>
   (other \<noteq> name \<longrightarrow>
      m_runningOperations (registerLanderOperation s name) other = m_runningOperations s other) \<and>
   emitted (registerLanderOperation s name) = emitted s \<and>
   m_commandStatusCallback (registerLanderOperation s name) = m_commandStatusCallback s"
  by (simp add: registerLanderOperation_def isLanderOperation_def operationRunning_def map_at_def)

theorem registerLanderOperation_overwrites_witness:
  "isLanderOperation (registerLanderOperation Dig_running ''Dig'') ''Dig'' \<and>
   operationRunning (registerLanderOperation Dig_running ''Dig'') ''Dig'' = Inr False \<and>
   ''Stow'' \<noteq> ''Dig'' \<and>
   m_runningOperations (registerLanderOperation Dig_running ''Dig'') ''Stow'' =
     m_runningOperations Dig_running ''Stow'' \<and>
   emitted (registerLanderOperation Dig_running ''Dig'') = emitted Dig_running"
  using registerLanderOperation_overwrites [of Dig_running "''Dig''" "''Stow''"]
  by simp

subsection \<open>Names that are not registered\<close>

lemma JointMap_simps:
  "JointMap ''j_shou_yaw'' = Some shoulder_yaw"
  "JointMap ''j_elbow'' = None"
  by (simp_all add: JointMap_def JointMap_table_def)

lemma outcome_without_logs_simps [simp]:
  "outcome_without_logs (Inl e) = Inl e"
  "outcome_without_logs (Inr s) = Inr (without_logs s)"
  by (simp_all add: outcome_without_logs_def)













section \<open>The order of the lifecycle facts\<close>

lemma service_call_facts:
  "facts_for name (published (service_call ow srv name response)) =
     facts_for name (published ow) @ [(''Running'', True), (''Finished'', True)]"
  by (simp add: service_call_def publish_def is_running_def start_def stop_def Let_def
      facts_for_append split: option.splits)

text \<open>What one call of \<^verbatim>\<open>markOperationFinished\<close> has emitted when it reaches the end of its
  body: the two facts and then, for an id other than \<open>IDLE_ID\<close>, the call of the callback,
  each of them with the entry of the operation already idle.\<close>

lemma markOperationFinished_emits:
  assumes "markOperationFinished s name cid = Inl (NoReturn, s')"
  shows "\<exists>new. emitted s' = emitted s @ new \<and>
           map fst new =
             [Publish ''Running'' False name, Publish ''Finished'' True name] @
             (if cid \<noteq> IDLE_ID then [CommandStatus cid True] else []) \<and>
           (\<forall>(e, registry) \<in> set new. registry name = Some IDLE_ID)"
proof -
  from markOperationFinished_ends [OF assms]
  obtain v where v: "m_runningOperations s name = Some v"
    by blast
  from assms show ?thesis
    unfolding markOperationFinished_registered [OF v]
    by (auto split: if_splits)
qed

text \<open>An operation of the registry, accepted by \<^verbatim>\<open>markOperationRunning\<close> and later finished
  by \<^verbatim>\<open>markOperationFinished\<close>, whatever is emitted between the two for other names: the
  facts published for its name are \<^verbatim>\<open>Running\<close> = true, \<^verbatim>\<open>Running\<close> = false,
  \<^verbatim>\<open>Finished\<close> = true, in this order.\<close>

lemma registry_facts_in_order:
  assumes acc: "markOperationRunning s name cid = Inr (True, s1)"
    and btw: "emitted s1' = emitted s1 @ between" "facts_for name (map fst between) = []"
    and fini: "markOperationFinished s1' name cid' = Inl (NoReturn, s2)"
  shows "facts_for name (events s2) =
           facts_for name (events s) @
             [(''Running'', True), (''Running'', False), (''Finished'', True)]"
proof -
  from markOperationFinished_emits [OF fini]
  obtain new where new: "emitted s2 = emitted s1' @ new"
    "map fst new = [Publish ''Running'' False name, Publish ''Finished'' True name] @
         (if cid' \<noteq> IDLE_ID then [CommandStatus cid' True] else [])"
    by blast
  from markOperationRunning_accepted [OF acc]
  have "events s1 = events s @ [Publish ''Running'' True name]"
    by (simp add: events_def)
  with btw new show ?thesis
    by (simp add: events_def facts_for_append)
qed

text \<open>
  Claim C6: for every dispatched operation, among the facts published for its name,
  \<^verbatim>\<open>Running\<close> = true comes before \<^verbatim>\<open>Running\<close> = false, which comes before
  \<^verbatim>\<open>Finished\<close> = true, and the callback is called only after the operation is idle again.

  An operation of the registry behaves so (\<open>registry_facts_in_order\<close>,
  \<open>markOperationFinished_emits\<close>), and the first line of the theorem runs \<^verbatim>\<open>Dig\<close>. A
  service run by \<^verbatim>\<open>service_call\<close> does not: it publishes \<^verbatim>\<open>Running\<close> = true and
  \<^verbatim>\<open>Finished\<close> = true and nothing between them, so that \<^verbatim>\<open>Running\<close> = false is never
  published for it (\<open>service_call_facts\<close>). The second line of the theorem runs the
  service \<^verbatim>\<open>MoveGuarded\<close> with a successful response.
\<close>

theorem service_call_publishes_no_running_false:
  "facts_for ''Dig'' (events Dig_finished) =
     [(''Running'', True), (''Running'', False), (''Finished'', True)] \<and>
   facts_for ''MoveGuarded''
     (published (service_call OwInterface_new MoveGuarded ''MoveGuarded'' (Some (True, ''ok'')))) =
     [(''Running'', True), (''Finished'', True)]"
  by (simp add: service_call_def publish_def is_running_def start_def stop_def
      OwInterface_new_def Let_def events_def Dig_finished_simps)

section \<open>Torque limits: properties\<close>

subsection \<open>Auxiliary facts\<close>

lemmas torque_defs = handle_overtorque_def hardTorqueLimitReached_def softTorqueLimitReached_def

lemma handle_overtorque_hard_iff:
  "hardTorqueLimitReached (handle_overtorque s j e) (plexilName (JointPropMap j)) \<longleftrightarrow>
     joint_tier j e = Hard \<or>
     joint_tier j e = Soft \<and> hardTorqueLimitReached s (plexilName (JointPropMap j))"
  by (simp add: torque_defs joint_tier_def spec_tier_def)

lemma handle_overtorque_soft_iff:
  "softTorqueLimitReached (handle_overtorque s j e) (plexilName (JointPropMap j)) \<longleftrightarrow>
     joint_tier j e = Soft \<or>
     joint_tier j e = Hard \<and> softTorqueLimitReached s (plexilName (JointPropMap j))"
  by (simp add: torque_defs joint_tier_def spec_tier_def)

lemma handle_overtorque_sign: "handle_overtorque s j (- e) = handle_overtorque s j e"
  by (simp add: handle_overtorque_def)

lemma handle_overtorque_frame:
  assumes "n \<noteq> plexilName (JointPropMap j)"
  shows "hardTorqueLimitReached (handle_overtorque s j e) n = hardTorqueLimitReached s n"
    and "softTorqueLimitReached (handle_overtorque s j e) n = softTorqueLimitReached s n"
  using assms by (simp_all add: torque_defs)

lemma publish_faults [simp]:
  "JointsAtHardTorqueLimit (publish ev s) = JointsAtHardTorqueLimit s"
  "JointsAtSoftTorqueLimit (publish ev s) = JointsAtSoftTorqueLimit s"
  by (simp_all add: publish_def)

text \<open>The torque limit sets after one entry of a message: untouched for an unknown name,
  and otherwise what \<open>handle_overtorque\<close> makes of the entry's effort.\<close>

lemma joint_states_entry_faults:
  assumes "joint_states_entry s msg i = Inr s'"
  shows "\<exists>ros_name. vec_at (msg_name msg) i = Inr ros_name \<and>
     (case JointMap ros_name of
        None \<Rightarrow> JointsAtHardTorqueLimit s' = JointsAtHardTorqueLimit s \<and>
                JointsAtSoftTorqueLimit s' = JointsAtSoftTorqueLimit s
      | Some joint \<Rightarrow> \<exists>f. vec_at (msg_effort msg) i = Inr f \<and>
          JointsAtHardTorqueLimit s' = JointsAtHardTorqueLimit (handle_overtorque s joint f) \<and>
          JointsAtSoftTorqueLimit s' = JointsAtSoftTorqueLimit (handle_overtorque s joint f))"
  using assms
  by (auto simp: joint_states_entry_def handle_joint_fault_def Let_def handle_overtorque_def
      split: sum.splits option.splits)

lemma shoulder_sampled_simps:
  "joint_states_entry OwInterface_new one_joint_msg 0 = Inr shoulder_sampled"
  "joint_states_entry OwInterface_new
     (one_joint_msg\<lparr>msg_position := [7, 0], msg_velocity := [8, 0]\<rparr>) 0 = Inr shoulder_resampled"
  by (simp_all add: shoulder_sampled_def shoulder_resampled_def joint_states_entry_def
      handle_joint_fault_def vec_at_def one_joint_msg_def JointMap_simps Let_def)


subsection \<open>The tier of a sample\<close>

text \<open>
  Claim C4: the fault tier of a sample is computed from the magnitude of its effort
  alone: Hard when it is at least the hard limit, else Soft when it is at least the soft
  limit, else Nominal. For a joint with the limits 60 and 80, the effort 59 is nominal,
  60 and 79.9 are soft, 80 and -85 are hard, and a later sample with the effort 10
  removes the joint from both sets.

  In the code the tier is the branch that \<open>handle_overtorque\<close> takes. After the call the
  joint is at its hard limit exactly when the tier is Hard, or the tier is Soft and it
  was there before; and at its soft limit exactly when the tier is Soft, or the tier is
  Hard and it was there before. The sign of the effort plays no part. The examples start
  from the empty sets; the last one holds from any state.
\<close>

theorem handle_overtorque_follows_tier:
  "(hardTorqueLimitReached (handle_overtorque s j e) (plexilName (JointPropMap j)) \<longleftrightarrow>
      joint_tier j e = Hard \<or>
      joint_tier j e = Soft \<and> hardTorqueLimitReached s (plexilName (JointPropMap j))) \<and>
   (softTorqueLimitReached (handle_overtorque s j e) (plexilName (JointPropMap j)) \<longleftrightarrow>
      joint_tier j e = Soft \<or>
      joint_tier j e = Hard \<and> softTorqueLimitReached s (plexilName (JointPropMap j))) \<and>
   handle_overtorque s j (- e) = handle_overtorque s j e \<and>
   (softTorqueLimit (JointPropMap j) = 60 \<and> hardTorqueLimit (JointPropMap j) = 80 \<longrightarrow>
      joint_tier j 59 = Nominal \<and> joint_tier j 60 = Soft \<and> joint_tier j 79.9 = Soft \<and>
      joint_tier j 80 = Hard \<and> joint_tier j (- 85) = Hard \<and> joint_tier j 10 = Nominal \<and>
      torque_status (handle_overtorque OwInterface_new j 59) (plexilName (JointPropMap j)) =
        (False, False) \<and>
      torque_status (handle_overtorque OwInterface_new j 60) (plexilName (JointPropMap j)) =
        (False, True) \<and>
      torque_status (handle_overtorque OwInterface_new j 79.9) (plexilName (JointPropMap j)) =
        (False, True) \<and>
      torque_status (handle_overtorque OwInterface_new j 80) (plexilName (JointPropMap j)) =
        (True, False) \<and>
      torque_status (handle_overtorque OwInterface_new j (- 85)) (plexilName (JointPropMap j)) =
        (True, False) \<and>
      torque_status (handle_overtorque s j 10) (plexilName (JointPropMap j)) = (False, False))"
proof -
  have tiers: "softTorqueLimit (JointPropMap j) = 60 \<and> hardTorqueLimit (JointPropMap j) = 80 \<longrightarrow>
      joint_tier j 59 = Nominal \<and> joint_tier j 60 = Soft \<and> joint_tier j 79.9 = Soft \<and>
      joint_tier j 80 = Hard \<and> joint_tier j (- 85) = Hard \<and> joint_tier j 10 = Nominal"
    by (simp add: joint_tier_def spec_tier_def)
  have sets: "softTorqueLimit (JointPropMap j) = 60 \<and> hardTorqueLimit (JointPropMap j) = 80 \<longrightarrow>
      torque_status (handle_overtorque OwInterface_new j 59) (plexilName (JointPropMap j)) =
        (False, False) \<and>
      torque_status (handle_overtorque OwInterface_new j 60) (plexilName (JointPropMap j)) =
        (False, True) \<and>
      torque_status (handle_overtorque OwInterface_new j 79.9) (plexilName (JointPropMap j)) =
        (False, True) \<and>
      torque_status (handle_overtorque OwInterface_new j 80) (plexilName (JointPropMap j)) =
        (True, False) \<and>
      torque_status (handle_overtorque OwInterface_new j (- 85)) (plexilName (JointPropMap j)) =
        (True, False) \<and>
      torque_status (handle_overtorque s j 10) (plexilName (JointPropMap j)) = (False, False)"
    by (simp add: torque_status_def torque_defs OwInterface_new_def)
  from tiers sets show ?thesis
    using handle_overtorque_hard_iff [of s j e] handle_overtorque_soft_iff [of s j e]
      handle_overtorque_sign [of s j e]
    by blast
qed

theorem handle_overtorque_follows_tier_witness:
  "softTorqueLimit (JointPropMap shoulder_yaw) = 60 \<and>
   hardTorqueLimit (JointPropMap shoulder_yaw) = 80 \<and>
   joint_tier shoulder_yaw (- 85) = Hard \<and>
   hardTorqueLimitReached (handle_overtorque OwInterface_new shoulder_yaw (- 85)) ''ShoulderYaw'' \<and>
   \<not> softTorqueLimitReached (handle_overtorque OwInterface_new shoulder_yaw (- 85)) ''ShoulderYaw'' \<and>
   torque_status (handle_overtorque OwInterface_new shoulder_yaw 59) ''ShoulderYaw'' = (False, False) \<and>
   torque_status (handle_overtorque OwInterface_new shoulder_yaw 60) ''ShoulderYaw'' = (False, True) \<and>
   torque_status (handle_overtorque OwInterface_new shoulder_yaw 79.9) ''ShoulderYaw'' = (False, True) \<and>
   torque_status (handle_overtorque OwInterface_new shoulder_yaw 80) ''ShoulderYaw'' = (True, False) \<and>
   torque_status (handle_overtorque OwInterface_new shoulder_yaw (- 85)) ''ShoulderYaw'' = (True, False) \<and>
   torque_status (handle_overtorque (handle_overtorque OwInterface_new shoulder_yaw (- 85)) shoulder_yaw 10)
     ''ShoulderYaw'' = (False, False)"
  using handle_overtorque_follows_tier [of OwInterface_new shoulder_yaw "- 85"]
    handle_overtorque_follows_tier
      [of "handle_overtorque OwInterface_new shoulder_yaw (- 85)" shoulder_yaw 0]
  by (simp add: softTorqueLimitReached_def OwInterface_new_def)

subsection \<open>The two sets\<close>

text \<open>
  Claim C5: after every sequence of samples no joint is in both sets; a Hard sample puts
  the joint into the hard set and removes it from the soft set, a Soft sample puts it
  into the soft set and removes it from the hard set.

  \<open>handle_overtorque\<close> removes a joint from a set in its last branch only. A soft sample
  followed by a hard one leaves the joint in both sets.
\<close>

theorem handle_overtorque_soft_then_hard_counterexample:
  "''ShoulderYaw'' \<in>
     JointsAtHardTorqueLimit
       (handle_overtorque (handle_overtorque OwInterface_new shoulder_yaw 60) shoulder_yaw 80) \<inter>
     JointsAtSoftTorqueLimit
       (handle_overtorque (handle_overtorque OwInterface_new shoulder_yaw 60) shoulder_yaw 80)"
  by (simp add: torque_defs OwInterface_new_def)

text \<open>
  Claim C5, amended: a Hard sample puts the joint into the hard set and leaves the soft
  set as it is; a Soft sample puts the joint into the soft set and leaves the hard set as
  it is; a Nominal sample removes the joint from both sets. The two sets need not be
  disjoint: a joint stays in the set of an earlier tier until a Nominal sample.
\<close>

theorem handle_overtorque_membership:
  "(\<bar>e\<bar> \<ge> hardTorqueLimit (JointPropMap j) \<longrightarrow>
      plexilName (JointPropMap j) \<in> JointsAtHardTorqueLimit (handle_overtorque s j e) \<and>
      JointsAtSoftTorqueLimit (handle_overtorque s j e) = JointsAtSoftTorqueLimit s) \<and>
   (\<bar>e\<bar> < hardTorqueLimit (JointPropMap j) \<and> \<bar>e\<bar> \<ge> softTorqueLimit (JointPropMap j) \<longrightarrow>
      plexilName (JointPropMap j) \<in> JointsAtSoftTorqueLimit (handle_overtorque s j e) \<and>
      JointsAtHardTorqueLimit (handle_overtorque s j e) = JointsAtHardTorqueLimit s) \<and>
   (\<bar>e\<bar> < hardTorqueLimit (JointPropMap j) \<and> \<bar>e\<bar> < softTorqueLimit (JointPropMap j) \<longrightarrow>
      plexilName (JointPropMap j) \<notin> JointsAtHardTorqueLimit (handle_overtorque s j e) \<and>
      plexilName (JointPropMap j) \<notin> JointsAtSoftTorqueLimit (handle_overtorque s j e))"
  by (simp add: handle_overtorque_def)

theorem handle_overtorque_membership_witness:
  "\<bar>85::real\<bar> \<ge> hardTorqueLimit (JointPropMap shoulder_yaw) \<and>
   ''ShoulderYaw'' \<in> JointsAtHardTorqueLimit (handle_overtorque OwInterface_new shoulder_yaw 85) \<and>
   JointsAtSoftTorqueLimit (handle_overtorque OwInterface_new shoulder_yaw 85) = {} \<and>
   \<bar>65::real\<bar> < hardTorqueLimit (JointPropMap shoulder_yaw) \<and>
   \<bar>65::real\<bar> \<ge> softTorqueLimit (JointPropMap shoulder_yaw) \<and>
   ''ShoulderYaw'' \<in> JointsAtSoftTorqueLimit (handle_overtorque OwInterface_new shoulder_yaw 65) \<and>
   JointsAtHardTorqueLimit (handle_overtorque OwInterface_new shoulder_yaw 65) = {} \<and>
   \<bar>10::real\<bar> < hardTorqueLimit (JointPropMap shoulder_yaw) \<and>
   \<bar>10::real\<bar> < softTorqueLimit (JointPropMap shoulder_yaw) \<and>
   ''ShoulderYaw'' \<notin> JointsAtHardTorqueLimit (handle_overtorque OwInterface_new shoulder_yaw 10) \<and>
   ''ShoulderYaw'' \<notin> JointsAtSoftTorqueLimit (handle_overtorque OwInterface_new shoulder_yaw 10)"
  using handle_overtorque_membership [where e = 85 and j = shoulder_yaw and s = OwInterface_new]
    handle_overtorque_membership [where e = 65 and j = shoulder_yaw and s = OwInterface_new]
    handle_overtorque_membership [where e = 10 and j = shoulder_yaw and s = OwInterface_new]
  by (simp add: OwInterface_new_def)

subsection \<open>What one sample can change\<close>

text \<open>
  Claim C10: processing one sample of a known joint changes the membership in the two
  sets for that joint at most: every other name is in the hard set, and in the soft set,
  exactly when it was before; and the outcome depends on the effort of the sample only,
  not on its position or velocity.

  Stated for \<open>handle_overtorque\<close> and for one whole entry of a joint states message; the
  independence is stated for \<open>handle_joint_fault\<close>, which reads the effort vector only, and
  for the sets after a whole entry.
\<close>

theorem joint_sample_frame:
  "(n \<noteq> plexilName (JointPropMap j) \<longrightarrow>
      hardTorqueLimitReached (handle_overtorque s j e) n = hardTorqueLimitReached s n \<and>
      softTorqueLimitReached (handle_overtorque s j e) n = softTorqueLimitReached s n) \<and>
   (joint_states_entry s msg i = Inr s' \<and> JointMap (msg_name msg ! i) = Some j \<and>
    n \<noteq> plexilName (JointPropMap j) \<longrightarrow>
      hardTorqueLimitReached s' n = hardTorqueLimitReached s n \<and>
      softTorqueLimitReached s' n = softTorqueLimitReached s n) \<and>
   handle_joint_fault s j i (msg\<lparr>msg_position := p, msg_velocity := v\<rparr>) =
     handle_joint_fault s j i msg \<and>
   (joint_states_entry s msg i = Inr s' \<and>
    joint_states_entry s (msg\<lparr>msg_position := p, msg_velocity := v\<rparr>) i = Inr s'' \<longrightarrow>
      JointsAtHardTorqueLimit s'' = JointsAtHardTorqueLimit s' \<and>
      JointsAtSoftTorqueLimit s'' = JointsAtSoftTorqueLimit s')"
proof -
  have a: "n \<noteq> plexilName (JointPropMap j) \<longrightarrow>
      hardTorqueLimitReached (handle_overtorque s j e) n = hardTorqueLimitReached s n \<and>
      softTorqueLimitReached (handle_overtorque s j e) n = softTorqueLimitReached s n"
    by (simp add: handle_overtorque_frame)
  have b: "joint_states_entry s msg i = Inr s' \<and> JointMap (msg_name msg ! i) = Some j \<and>
    n \<noteq> plexilName (JointPropMap j) \<longrightarrow>
      hardTorqueLimitReached s' n = hardTorqueLimitReached s n \<and>
      softTorqueLimitReached s' n = softTorqueLimitReached s n"
  proof (intro impI, elim conjE)
    assume run: "joint_states_entry s msg i = Inr s'"
      and known: "JointMap (msg_name msg ! i) = Some j"
      and other: "n \<noteq> plexilName (JointPropMap j)"
    from joint_states_entry_faults [OF run] known
    obtain f where "JointsAtHardTorqueLimit s' = JointsAtHardTorqueLimit (handle_overtorque s j f)"
      and "JointsAtSoftTorqueLimit s' = JointsAtSoftTorqueLimit (handle_overtorque s j f)"
      by (auto simp: vec_at_def split: if_splits)
    with handle_overtorque_frame [OF other, of s f]
    show "hardTorqueLimitReached s' n = hardTorqueLimitReached s n \<and>
      softTorqueLimitReached s' n = softTorqueLimitReached s n"
      by (simp add: hardTorqueLimitReached_def softTorqueLimitReached_def)
  qed
  have c: "handle_joint_fault s j i (msg\<lparr>msg_position := p, msg_velocity := v\<rparr>) =
     handle_joint_fault s j i msg"
    by (simp add: handle_joint_fault_def)
  have d: "joint_states_entry s msg i = Inr s' \<and>
    joint_states_entry s (msg\<lparr>msg_position := p, msg_velocity := v\<rparr>) i = Inr s'' \<longrightarrow>
      JointsAtHardTorqueLimit s'' = JointsAtHardTorqueLimit s' \<and>
      JointsAtSoftTorqueLimit s'' = JointsAtSoftTorqueLimit s'"
  proof (intro impI, elim conjE)
    assume r1: "joint_states_entry s msg i = Inr s'"
      and r2: "joint_states_entry s (msg\<lparr>msg_position := p, msg_velocity := v\<rparr>) i = Inr s''"
    from joint_states_entry_faults [OF r1] joint_states_entry_faults [OF r2]
    show "JointsAtHardTorqueLimit s'' = JointsAtHardTorqueLimit s' \<and>
      JointsAtSoftTorqueLimit s'' = JointsAtSoftTorqueLimit s'"
      by (auto split: option.splits)
  qed
  from a b c d show ?thesis by blast
qed

theorem joint_sample_frame_witness:
  "''HandYaw'' \<noteq> plexilName (JointPropMap shoulder_yaw) \<and>
   joint_states_entry OwInterface_new one_joint_msg 0 = Inr shoulder_sampled \<and>
   JointMap (msg_name one_joint_msg ! 0) = Some shoulder_yaw \<and>
   joint_states_entry OwInterface_new
     (one_joint_msg\<lparr>msg_position := [7, 0], msg_velocity := [8, 0]\<rparr>) 0 = Inr shoulder_resampled \<and>
   hardTorqueLimitReached (handle_overtorque OwInterface_new shoulder_yaw 85) ''HandYaw'' =
     hardTorqueLimitReached OwInterface_new ''HandYaw'' \<and>
   softTorqueLimitReached shoulder_sampled ''HandYaw'' =
     softTorqueLimitReached OwInterface_new ''HandYaw'' \<and>
   JointsAtSoftTorqueLimit shoulder_resampled = JointsAtSoftTorqueLimit shoulder_sampled \<and>
   JointsAtHardTorqueLimit shoulder_resampled = JointsAtHardTorqueLimit shoulder_sampled"
proof -
  have other: "''HandYaw'' \<noteq> plexilName (JointPropMap shoulder_yaw)"
    by simp
  have known: "JointMap (msg_name one_joint_msg ! 0) = Some shoulder_yaw"
    by (simp add: one_joint_msg_def JointMap_simps)
  note runs = shoulder_sampled_simps
  from other known runs
    joint_sample_frame [where n = "''HandYaw''" and j = shoulder_yaw and s = OwInterface_new
      and e = 85 and msg = one_joint_msg and i = 0 and s' = shoulder_sampled
      and p = "[7, 0]" and v = "[8, 0]" and s'' = shoulder_resampled]
  show ?thesis
    by blast
qed

end
